theory Spec2Isabelle
  imports Complex_Main "HOL-Library.Word" "HOL-Library.AList"
begin

section \<open>Submission and confirmation engine (Solana adapter)\<close>

text \<open>
  The engine is \<^verbatim>\<open>Solana._sendAndConfirmRawTransaction\<close>. Every network round trip
  is a value supplied by the environment: either the answer or the exception the call
  throws. The payloads handed to the transport are collected in a log, in order.
\<close>

type_synonym byte = "8 word"

datatype rpc_error = RpcError string

datatype commitment = Processed | Confirmed | Finalized

record signature_status =
  err :: "string option"
  confirmationStatus :: "commitment option"

record tx_meta =
  fee :: "nat option"

record tx_data =
  meta :: "tx_meta option"

record send_result =
  confirmed :: bool
  signature :: string
  txData :: "tx_data option"

text \<open>What the RPC node answers during one iteration of the poll loop.\<close>

record poll_responses =
  getSignatureStatuses :: "rpc_error + signature_status option"
  getTransaction :: "rpc_error + tx_data option"
  getBlockHeight :: "rpc_error + nat"
  resendRawTransaction :: "rpc_error + string"

text \<open>The Helius service is optional; its three calls are answers of the environment.\<close>

record helius_responses =
  sendWithSender :: "rpc_error + string"
  isWebSocketConnected :: bool
  monitorTransaction :: "rpc_error + (bool \<times> tx_data option)"

record send_env =
  getLatestBlockhash :: "rpc_error + (string \<times> nat)"
  heliusService :: "helius_responses option"
  sendRawTransaction :: "rpc_error + string"
  polls :: "nat \<Rightarrow> poll_responses"

definition maxPollingAttempts :: nat where
  "maxPollingAttempts = 30"

text \<open>
  One iteration of the loop body either returns from the function or falls through to the
  next iteration; in both cases it may have handed payloads to \<^verbatim>\<open>sendRawTransaction\<close>.
\<close>

datatype poll_step = Return send_result | Next "byte list list"

text \<open>Lines 1499-1516: the expiry check and the re-broadcast, whose own failure is caught.\<close>

definition checkBlockhashExpired :: "poll_responses \<Rightarrow> byte list \<Rightarrow> nat \<Rightarrow> poll_step" where
  "checkBlockhashExpired r serializedTx lastValidBlockHeight =
     (case getBlockHeight r of
        Inl e \<Rightarrow> Next []
      | Inr currentBlockHeight \<Rightarrow>
          if currentBlockHeight > lastValidBlockHeight
          then (case resendRawTransaction r of
                  Inl rebroadcastError \<Rightarrow> Next [serializedTx]
                | Inr s \<Rightarrow> Next [serializedTx])
          else Next [])"

text \<open>Lines 1475-1523: the body of the loop, with its \<^verbatim>\<open>catch (pollingError)\<close>.\<close>

definition pollOnce :: "poll_responses \<Rightarrow> byte list \<Rightarrow> string \<Rightarrow> nat \<Rightarrow> poll_step" where
  "pollOnce r serializedTx sig lastValidBlockHeight =
     (case getSignatureStatuses r of
        Inl pollingError \<Rightarrow> Next []
      | Inr None \<Rightarrow> checkBlockhashExpired r serializedTx lastValidBlockHeight
      | Inr (Some status) \<Rightarrow>
          if err status \<noteq> None
          then Return \<lparr>confirmed = False, signature = sig, txData = None\<rparr>
          else if confirmationStatus status = Some Confirmed
                  \<or> confirmationStatus status = Some Finalized
          then (case getTransaction r of
                  Inl pollingError \<Rightarrow> Next []
                | Inr txd \<Rightarrow> Return \<lparr>confirmed = True, signature = sig, txData = txd\<rparr>)
          else checkBlockhashExpired r serializedTx lastValidBlockHeight)"

text \<open>
  Lines 1468-1528: the loop. The result carries the number of attempts made and the
  payloads sent while polling.
\<close>

function pollLoop ::
  "(nat \<Rightarrow> poll_responses) \<Rightarrow> byte list \<Rightarrow> string \<Rightarrow> nat \<Rightarrow> nat \<Rightarrow> byte list list
     \<Rightarrow> send_result \<times> nat \<times> byte list list" where
  "pollLoop env serializedTx sig lastValidBlockHeight attempts sent =
     (if attempts < maxPollingAttempts
      then (case pollOnce (env (attempts + 1)) serializedTx sig lastValidBlockHeight of
              Return res \<Rightarrow> (res, attempts + 1, sent)
            | Next resent \<Rightarrow>
                pollLoop env serializedTx sig lastValidBlockHeight (attempts + 1) (sent @ resent))
      else (\<lparr>confirmed = False, signature = sig, txData = None\<rparr>, attempts, sent))"
  by pat_completeness auto
termination
  by (relation "measure (\<lambda>(env, tx, sig, lvb, attempts, sent). maxPollingAttempts - attempts)") auto

text \<open>Lines 1430-1449: the first broadcast, through the Helius sender when there is one.\<close>

definition firstBroadcast :: "send_env \<Rightarrow> byte list \<Rightarrow> (rpc_error + string) \<times> byte list list" where
  "firstBroadcast env serializedTx =
     (case heliusService env of
        Some h \<Rightarrow>
          (case sendWithSender h of
             Inr s \<Rightarrow> (Inr s, [serializedTx])
           | Inl e \<Rightarrow> (sendRawTransaction env, [serializedTx, serializedTx]))
      | None \<Rightarrow> (sendRawTransaction env, [serializedTx]))"

text \<open>
  Lines 1422-1533. The value is the result (or the exception that escapes, which only
  \<^verbatim>\<open>getLatestBlockhash\<close> can raise, being outside the \<^verbatim>\<open>try\<close>), the number of poll
  attempts, and every payload handed to the transport.
\<close>

definition priv_sendAndConfirmRawTransaction ::
  "send_env \<Rightarrow> byte list \<Rightarrow> (rpc_error + send_result) \<times> nat \<times> byte list list" where
  "priv_sendAndConfirmRawTransaction env serializedTx =
     (case getLatestBlockhash env of
        Inl e \<Rightarrow> (Inl e, 0, [])
      | Inr (blockhash, lastValidBlockHeight) \<Rightarrow>
          (case firstBroadcast env serializedTx of
             (Inl sendError, sent) \<Rightarrow>
               (Inr \<lparr>confirmed = False, signature = [], txData = None\<rparr>, 0, sent)
           | (Inr sig, sent) \<Rightarrow>
               (case heliusService env of
                  Some h \<Rightarrow>
                    if isWebSocketConnected h
                    then (case monitorTransaction h of
                            Inl sendError \<Rightarrow>
                              (Inr \<lparr>confirmed = False, signature = sig, txData = None\<rparr>, 0, sent)
                          | Inr (c, txd) \<Rightarrow>
                              (Inr \<lparr>confirmed = c, signature = sig, txData = txd\<rparr>, 0, sent))
                    else (case pollLoop (polls env) serializedTx sig lastValidBlockHeight 0 sent of
                            (res, attempts, sent') \<Rightarrow> (Inr res, attempts, sent'))
                | None \<Rightarrow>
                    (case pollLoop (polls env) serializedTx sig lastValidBlockHeight 0 sent of
                       (res, attempts, sent') \<Rightarrow> (Inr res, attempts, sent')))))"


section \<open>Settlement extraction\<close>

text \<open>
  JavaScript numbers are modelled as exact rationals, with \<open>NaN\<close> where the source can
  produce it; the rounding of IEEE doubles is not modelled.
\<close>

datatype js_num = Num rat | NaN

fun js_sub :: "js_num \<Rightarrow> js_num \<Rightarrow> js_num" where
  "js_sub (Num a) (Num b) = Num (a - b)"
| "js_sub _ _ = NaN"

fun js_mul :: "js_num \<Rightarrow> js_num \<Rightarrow> js_num" where
  "js_mul (Num a) (Num b) = Num (a * b)"
| "js_mul _ _ = NaN"

fun js_abs :: "js_num \<Rightarrow> js_num" where
  "js_abs (Num a) = Num \<bar>a\<bar>"
| "js_abs NaN = NaN"

fun js_neg :: "js_num \<Rightarrow> js_num" where
  "js_neg (Num a) = Num (- a)"
| "js_neg NaN = NaN"

definition LAMPORT_TO_SOL :: rat where
  "LAMPORT_TO_SOL = 1 / 10 ^ 9"

definition SOL_NATIVE_MINT :: string where
  "SOL_NATIVE_MINT = ''So11111111111111111111111111111111111111112''"

text \<open>\<^verbatim>\<open>Solana.getFee\<close>: the fee of the transaction data, in SOL.\<close>

definition getFee :: "tx_data option \<Rightarrow> rat" where
  "getFee txd =
     (case txd of
        None \<Rightarrow> 0
      | Some d \<Rightarrow>
          (case meta d of
             None \<Rightarrow> 0
           | Some m \<Rightarrow> of_nat (case fee m of None \<Rightarrow> 0 | Some f \<Rightarrow> f) * LAMPORT_TO_SOL))"

text \<open>The parsed transaction that \<^verbatim>\<open>getParsedTransaction\<close> returns.\<close>

record ui_token_amount =
  amount :: nat
  decimals :: nat
  uiAmount :: "rat option"

record token_balance =
  mint :: string
  owner :: "string option"
  uiTokenAmount :: ui_token_amount

record parsed_meta =
  parsed_fee :: "nat option"
  preBalances :: "nat list"
  postBalances :: "nat list"
  preTokenBalances :: "token_balance list option"
  postTokenBalances :: "token_balance list option"

record parsed_tx =
  accountKeys :: "string list"
  parsed_meta :: "parsed_meta option"

record extract_env =
  getParsedTransaction :: "rpc_error + parsed_tx option"
  validPublicKey :: "string \<Rightarrow> bool"

fun findIndex :: "('a \<Rightarrow> bool) \<Rightarrow> 'a list \<Rightarrow> nat option" where
  "findIndex P [] = None"
| "findIndex P (x # xs) =
     (if P x then Some 0 else (case findIndex P xs of None \<Rightarrow> None | Some i \<Rightarrow> Some (Suc i)))"

text \<open>An array read; out of range JavaScript yields \<^verbatim>\<open>undefined\<close>, which is \<open>NaN\<close> in arithmetic.\<close>

definition at_index :: "nat list \<Rightarrow> nat \<Rightarrow> js_num" where
  "at_index xs i = (if i < length xs then Num (of_nat (xs ! i)) else NaN)"

text \<open>\<^verbatim>\<open>find(...)?.uiTokenAmount.uiAmount || 0\<close>\<close>

definition uiAmountOf :: "token_balance list \<Rightarrow> string \<Rightarrow> string \<Rightarrow> rat" where
  "uiAmountOf bals token ownr =
     (case List.find (\<lambda>b. mint b = token \<and> owner b = Some ownr) bals of
        None \<Rightarrow> 0
      | Some b \<Rightarrow> (case uiAmount (uiTokenAmount b) of None \<Rightarrow> 0 | Some u \<Rightarrow> u))"

text \<open>Lines 1591-1619: the balance change of one token.\<close>

definition balanceChange :: "parsed_tx \<Rightarrow> string \<Rightarrow> string \<Rightarrow> js_num" where
  "balanceChange txDetails ownr token =
     (let m = parsed_meta txDetails;
          pre = (case m of None \<Rightarrow> [] | Some x \<Rightarrow> preBalances x);
          post = (case m of None \<Rightarrow> [] | Some x \<Rightarrow> postBalances x);
          preTok = (case m of None \<Rightarrow> [] | Some x \<Rightarrow>
                      (case preTokenBalances x of None \<Rightarrow> [] | Some l \<Rightarrow> l));
          postTok = (case m of None \<Rightarrow> [] | Some x \<Rightarrow>
                      (case postTokenBalances x of None \<Rightarrow> [] | Some l \<Rightarrow> l))
      in if token = SOL_NATIVE_MINT
         then (case findIndex (\<lambda>key. key = ownr) (accountKeys txDetails) of
                 None \<Rightarrow> Num 0
               | Some accountIndex \<Rightarrow>
                   js_mul (js_sub (at_index post accountIndex) (at_index pre accountIndex))
                          (Num LAMPORT_TO_SOL))
         else Num (uiAmountOf postTok token ownr - uiAmountOf preTok token ownr))"

text \<open>\<^verbatim>\<open>Solana.extractBalanceChangesAndFee\<close>, lines 1564-1622.\<close>

definition extractBalanceChangesAndFee ::
  "extract_env \<Rightarrow> string \<Rightarrow> string \<Rightarrow> string list \<Rightarrow> rpc_error + (js_num list \<times> rat)" where
  "extractBalanceChangesAndFee env sig ownr tokens =
     (case getParsedTransaction env of
        Inl e \<Rightarrow> Inl e
      | Inr None \<Rightarrow> Inl (RpcError (''Transaction '' @ sig @ '' not found''))
      | Inr (Some txDetails) \<Rightarrow>
          (let f = of_nat (case parsed_meta txDetails of
                             None \<Rightarrow> 0
                           | Some m \<Rightarrow> (case parsed_fee m of None \<Rightarrow> 0 | Some x \<Rightarrow> x))
                     * LAMPORT_TO_SOL
           in if \<not> validPublicKey env ownr then Inl (RpcError ''Invalid public key input'')
              else Inr (map (balanceChange txDetails ownr) tokens, f)))"

text \<open>\<^verbatim>\<open>formatTokenAmount\<close> of the ETCSwap connector; \<^verbatim>\<open>parseFloat\<close> is the caller's.\<close>

datatype amount_arg = AmountString string | AmountNumber js_num

definition formatTokenAmount :: "(string \<Rightarrow> js_num) \<Rightarrow> amount_arg \<Rightarrow> nat \<Rightarrow> js_num" where
  "formatTokenAmount parseFloat a d =
     (case (case a of AmountString s \<Rightarrow> parseFloat s | AmountNumber n \<Rightarrow> n) of
        NaN \<Rightarrow> NaN
      | Num r \<Rightarrow> Num (r / 10 ^ d))"

text \<open>The response of the two confirmation helpers.\<close>

datatype side = BUY | SELL

record swap_data =
  tokenIn :: string
  tokenOut :: string
  amountIn :: js_num
  amountOut :: js_num
  data_fee :: js_num
  baseTokenBalanceChange :: js_num
  quoteTokenBalanceChange :: js_num

record confirmation_response =
  resp_signature :: string
  status :: int
  data :: "swap_data option"

text \<open>\<^verbatim>\<open>Solana.handleConfirmation\<close>, lines 1844-1935.\<close>

definition handleConfirmation ::
  "extract_env \<Rightarrow> string \<Rightarrow> bool \<Rightarrow> tx_data option \<Rightarrow> string \<Rightarrow> string \<Rightarrow> string \<Rightarrow> side option
     \<Rightarrow> rpc_error + confirmation_response" where
  "handleConfirmation env sig conf txd tIn tOut walletAddress sd =
     (if conf \<and> txd \<noteq> None
      then (case extractBalanceChangesAndFee env sig walletAddress [tIn, tOut] of
              Inl e \<Rightarrow> Inl e
            | Inr (balanceChanges, f) \<Rightarrow>
                (let inputTokenBalanceChange = balanceChanges ! 0;
                     outputTokenBalanceChange = balanceChanges ! 1
                 in Inr \<lparr>resp_signature = sig, status = 1,
                      data = Some \<lparr>tokenIn = tIn, tokenOut = tOut,
                        amountIn = js_abs inputTokenBalanceChange,
                        amountOut = js_abs outputTokenBalanceChange,
                        data_fee = Num f,
                        baseTokenBalanceChange =
                          (case sd of
                             None \<Rightarrow> inputTokenBalanceChange
                           | Some s \<Rightarrow> if s = SELL then inputTokenBalanceChange
                                       else outputTokenBalanceChange),
                        quoteTokenBalanceChange =
                          (case sd of
                             None \<Rightarrow> outputTokenBalanceChange
                           | Some s \<Rightarrow> if s = SELL then outputTokenBalanceChange
                                       else inputTokenBalanceChange)\<rparr>\<rparr>))
      else if txd \<noteq> None \<and> \<not> conf
      then Inr \<lparr>resp_signature = sig, status = - 1,
             data = Some \<lparr>tokenIn = tIn, tokenOut = tOut, amountIn = Num 0, amountOut = Num 0,
               data_fee = Num (getFee txd),
               baseTokenBalanceChange = Num 0, quoteTokenBalanceChange = Num 0\<rparr>\<rparr>
      else Inr \<lparr>resp_signature = sig, status = 0, data = None\<rparr>)"

text \<open>
  \<^verbatim>\<open>Solana.sendAndConfirmTransaction\<close>, lines 1112-1122: what happens to the serialized
  transaction once fee estimation, simulation and signing have produced it.
\<close>

definition sendAndConfirmTransaction :: "send_env \<Rightarrow> byte list \<Rightarrow> rpc_error + (string \<times> rat)" where
  "sendAndConfirmTransaction env serializedTx =
     (case fst (priv_sendAndConfirmRawTransaction env serializedTx) of
        Inl e \<Rightarrow> Inl e
      | Inr res \<Rightarrow>
          if confirmed res \<and> txData res \<noteq> None
          then Inr (signature res, getFee (txData res))
          else Inl (RpcError ''Transaction failed to confirm''))"

text \<open>The receipt of an EVM transaction.\<close>

record tx_receipt =
  transactionHash :: string
  receipt_status :: "int option"
  gasUsed :: int
  effectiveGasPrice :: int

text \<open>\<^verbatim>\<open>Ethereum.handleTransactionConfirmation\<close>, lines 929-1028.\<close>

definition handleTransactionConfirmation ::
  "tx_receipt option \<Rightarrow> string \<Rightarrow> string \<Rightarrow> js_num \<Rightarrow> js_num \<Rightarrow> side option
     \<Rightarrow> confirmation_response" where
  "handleTransactionConfirmation txReceipt inputToken outputToken expectedAmountIn
       expectedAmountOut sd =
     (case txReceipt of
        None \<Rightarrow> \<lparr>resp_signature = [], status = 0, data = None\<rparr>
      | Some r \<Rightarrow>
          if receipt_status r = Some 0
          then \<lparr>resp_signature = transactionHash r, status = - 1,
                 data = Some \<lparr>tokenIn = inputToken, tokenOut = outputToken,
                   amountIn = Num 0, amountOut = Num 0, data_fee = Num 0,
                   baseTokenBalanceChange = Num 0, quoteTokenBalanceChange = Num 0\<rparr>\<rparr>
          else if receipt_status r = Some 1
          then \<lparr>resp_signature = transactionHash r, status = 1,
                 data = Some \<lparr>tokenIn = inputToken, tokenOut = outputToken,
                   amountIn = expectedAmountIn, amountOut = expectedAmountOut,
                   data_fee = Num (of_int (gasUsed r * effectiveGasPrice r) / 10 ^ 18),
                   baseTokenBalanceChange =
                     (case sd of
                        None \<Rightarrow> js_neg expectedAmountIn
                      | Some s \<Rightarrow> if s = SELL then js_neg expectedAmountIn
                                  else expectedAmountOut),
                   quoteTokenBalanceChange =
                     (case sd of
                        None \<Rightarrow> expectedAmountOut
                      | Some s \<Rightarrow> if s = SELL then expectedAmountOut
                                  else js_neg expectedAmountIn)\<rparr>\<rparr>
          else \<lparr>resp_signature = transactionHash r, status = 0,
                 data = Some \<lparr>tokenIn = inputToken, tokenOut = outputToken,
                   amountIn = Num 0, amountOut = Num 0, data_fee = Num 0,
                   baseTokenBalanceChange = Num 0, quoteTokenBalanceChange = Num 0\<rparr>\<rparr>)"


section \<open>Fee estimator of the Solana adapter\<close>

text \<open>
  \<^verbatim>\<open>SolanaPriorityFees.estimatePriorityFee\<close>. The static field
  \<^verbatim>\<open>lastPriorityFeeEstimate\<close> is the state, passed in and returned; the clock and the
  answer of the fee oracle come from the environment. An exception is a value \<open>Inl\<close>.
\<close>

record SolanaNetworkConfig =
  useHeliusRestRPC :: bool
  heliusAPIKey :: "string option"
  minPriorityFeePerCU :: "rat option"

record priority_fee_estimate =
  pf_timestamp :: int
  pf_fee :: rat

definition PRIORITY_FEE_CACHE_MS :: int where
  "PRIORITY_FEE_CACHE_MS = 10000"

text \<open>What the request to the oracle can come to, in the order the code looks at it.\<close>

datatype helius_reply =
    FetchThrows rpc_error
  | ResponseNotOk nat
  | JsonThrows rpc_error
  | ErrorBody string
  | EstimateNotANumber
  | PriorityFeeEstimate rat

record priority_fee_env =
  now :: int
  fetchReply :: helius_reply
  nowAtStore :: int

definition isWhitespace :: "char \<Rightarrow> bool" where
  "isWhitespace c = (c \<in> set [CHR 0x20, CHR 0x09, CHR 0x0A, CHR 0x0B, CHR 0x0C, CHR 0x0D])"

definition js_trim :: "string \<Rightarrow> string" where
  "js_trim s = rev (dropWhile isWhitespace (rev (dropWhile isWhitespace s)))"

text \<open>\<^verbatim>\<open>config.minPriorityFeePerCU || 0.1\<close>\<close>

definition minimumFeeOf :: "SolanaNetworkConfig \<Rightarrow> rat" where
  "minimumFeeOf config =
     (case minPriorityFeePerCU config of
        None \<Rightarrow> 1 / 10
      | Some m \<Rightarrow> if m = 0 then 1 / 10 else m)"

text \<open>Lines 27-97: the body of the \<^verbatim>\<open>try\<close>.\<close>

definition estimatePriorityFee_try ::
  "SolanaNetworkConfig \<Rightarrow> priority_fee_env \<Rightarrow> priority_fee_estimate option
     \<Rightarrow> (rpc_error + rat) \<times> priority_fee_estimate option" where
  "estimatePriorityFee_try config env cache =
     (if \<not> useHeliusRestRPC config then (Inr (minimumFeeOf config), cache)
      else if (case heliusAPIKey config of
                 None \<Rightarrow> True
               | Some apiKey \<Rightarrow> apiKey = [] \<or> js_trim apiKey = [] \<or> apiKey = ''HELIUS_API_KEY'')
      then (Inr (minimumFeeOf config), cache)
      else (case fetchReply env of
              FetchThrows e \<Rightarrow> (Inl e, cache)
            | ResponseNotOk code \<Rightarrow> (Inr (minimumFeeOf config), cache)
            | JsonThrows e \<Rightarrow> (Inl e, cache)
            | ErrorBody msg \<Rightarrow> (Inr (minimumFeeOf config), cache)
            | EstimateNotANumber \<Rightarrow> (Inr (minimumFeeOf config), cache)
            | PriorityFeeEstimate priorityFeeEstimate \<Rightarrow>
                (let priorityFeeLamports = priorityFeeEstimate / 1000000;
                     minimumFee = minimumFeeOf config;
                     finalFee = max priorityFeeLamports minimumFee
                 in (Inr finalFee,
                     Some \<lparr>pf_timestamp = nowAtStore env, pf_fee = finalFee\<rparr>))))"

text \<open>Lines 18-102: the cache check, the \<^verbatim>\<open>try\<close> and its \<^verbatim>\<open>catch\<close>.\<close>

definition estimatePriorityFee ::
  "SolanaNetworkConfig \<Rightarrow> priority_fee_env \<Rightarrow> priority_fee_estimate option
     \<Rightarrow> (rpc_error + rat) \<times> priority_fee_estimate option" where
  "estimatePriorityFee config env cache =
     (case (case cache of
              None \<Rightarrow> None
            | Some c \<Rightarrow> if now env - pf_timestamp c < PRIORITY_FEE_CACHE_MS
                        then Some (pf_fee c) else None) of
        Some cached \<Rightarrow> (Inr cached, cache)
      | None \<Rightarrow>
          (case estimatePriorityFee_try config env cache of
             (Inl error, cache') \<Rightarrow> (Inr (minimumFeeOf config), cache')
           | (Inr v, cache') \<Rightarrow> (Inr v, cache')))"

section \<open>Fee estimator and transaction builder of the EVM adapter\<close>

text \<open>
  \<^verbatim>\<open>Ethereum.estimateGasPrice\<close> and \<^verbatim>\<open>Ethereum.prepareGasOptions\<close>. The static field
  \<^verbatim>\<open>lastGasPriceEstimate\<close> is the state. Prices in GWEI are rationals, amounts in WEI
  (\<^verbatim>\<open>BigNumber\<close>) are integers.
\<close>

record TokenInfo =
  token_chainId :: nat
  address :: string
  name :: string
  symbol :: string
  token_decimals :: nat

record ethereum =
  network :: string
  nativeTokenSymbol :: string
  chainId :: nat
  minGasPrice :: rat
  maxFeePerGas :: "rat option"
  maxPriorityFeePerGas :: "rat option"
  etherscanService :: bool
  tokenList :: "TokenInfo list"

record gas_price_estimate =
  timestamp :: int
  gasPrice :: rat
  est_maxFeePerGas :: "rat option"
  est_maxPriorityFeePerGas :: "rat option"
  isEIP1559 :: "bool option"

definition GAS_PRICE_CACHE_MS :: int where
  "GAS_PRICE_CACHE_MS = 10000"

record fee_data =
  fd_maxFeePerGas :: "int option"
  fd_maxPriorityFeePerGas :: "int option"

record block =
  baseFeePerGas :: "int option"

text \<open>
  The answers of the Etherscan service and of the RPC provider during one call, the two
  readings of the clock, and \<^verbatim>\<open>utils.parseUnits(x.toString(), 'gwei')\<close> of the ethers
  library, which can throw.
\<close>

record gas_env =
  gas_now :: int
  getRecommendedGasPrices :: "rpc_error + (rat \<times> rat)"
  getFeeData :: "rpc_error + fee_data"
  getBlock :: "rpc_error + block"
  getGasPrice :: "rpc_error + int"
  eth_maxPriorityFeePerGas :: "rpc_error + int"
  gas_nowAtStore :: int
  parseUnitsGwei :: "rat \<Rightarrow> rpc_error + int"

definition supportsEIP1559 :: "string \<Rightarrow> bool" where
  "supportsEIP1559 n =
     (n = ''mainnet'' \<or> n = ''polygon'' \<or> n = ''arbitrum'' \<or> n = ''optimism'' \<or> n = ''base'')"

text \<open>\<^verbatim>\<open>BigNumber.toNumber\<close> throws outside the safe integer range.\<close>

definition toNumber :: "int \<Rightarrow> rpc_error + rat" where
  "toNumber x =
     (if \<bar>x\<bar> \<le> 9007199254740991 then Inr (of_int x) else Inl (RpcError ''overflow''))"

text \<open>Lines 158-199: the fees the network suggests, from Etherscan first, then from the RPC.\<close>

definition networkFees :: "ethereum \<Rightarrow> gas_env \<Rightarrow> (rat \<times> rat) option" where
  "networkFees inst env =
     (let scan = (if etherscanService inst
                  then (case getRecommendedGasPrices env of
                          Inl scanError \<Rightarrow> None
                        | Inr gasPrices \<Rightarrow> Some gasPrices)
                  else None)
      in case scan of
           Some v \<Rightarrow> Some v
         | None \<Rightarrow>
             (case getFeeData env of
                Inl networkError \<Rightarrow> None
              | Inr feeData \<Rightarrow>
                  (case (fd_maxFeePerGas feeData, fd_maxPriorityFeePerGas feeData) of
                     (Some fdMax, Some fdPriority) \<Rightarrow>
                       (case getBlock env of
                          Inl networkError \<Rightarrow> None
                        | Inr blk \<Rightarrow>
                            (let baseFee = (case baseFeePerGas blk of None \<Rightarrow> 0 | Some b \<Rightarrow> b);
                                 recommendedMaxFee = baseFee * 2 + fdPriority;
                                 maxFee = (if fdMax > recommendedMaxFee then fdMax
                                           else recommendedMaxFee)
                             in Some (of_int maxFee / 10 ^ 9, of_int fdPriority / 10 ^ 9)))
                   | _ \<Rightarrow> None)))"

text \<open>Lines 151-238: the body of the \<^verbatim>\<open>try\<close> of the EIP-1559 branch.\<close>

definition estimateGasPrice_eip1559 ::
  "ethereum \<Rightarrow> gas_env \<Rightarrow> rpc_error + (rat \<times> gas_price_estimate)" where
  "estimateGasPrice_eip1559 inst env =
     (case (case (maxFeePerGas inst, maxPriorityFeePerGas inst) of
              (Some cfgMax, Some cfgPriority) \<Rightarrow> Some (cfgMax, cfgPriority)
            | _ \<Rightarrow> networkFees inst env) of
        None \<Rightarrow> Inl (RpcError ''EIP-1559 fee data not available from network or config'')
      | Some (maxFeePerGasGwei, maxPriorityFeePerGasGwei) \<Rightarrow>
          (let clamped = (if maxFeePerGasGwei < minGasPrice inst then minGasPrice inst
                          else maxFeePerGasGwei)
           in Inr (clamped,
                   \<lparr>timestamp = gas_nowAtStore env, gasPrice = clamped,
                    est_maxFeePerGas = Some clamped,
                    est_maxPriorityFeePerGas = Some maxPriorityFeePerGasGwei,
                    isEIP1559 = Some True\<rparr>)))"

text \<open>Lines 245-283: the body of the \<^verbatim>\<open>try\<close> of the legacy branch.\<close>

definition estimateGasPrice_legacy ::
  "ethereum \<Rightarrow> gas_env \<Rightarrow> rpc_error + (rat \<times> gas_price_estimate)" where
  "estimateGasPrice_legacy inst env =
     (case getGasPrice env of
        Inl e \<Rightarrow> Inl e
      | Inr baseFee \<Rightarrow>
          (case (if network inst = ''mainnet'' then eth_maxPriorityFeePerGas env else Inr 0) of
             Inl e \<Rightarrow> Inl e
           | Inr priorityFee \<Rightarrow>
               (let baseWithPriority = baseFee + priorityFee
                in case toNumber baseWithPriority of
                     Inl e \<Rightarrow> Inl e
                   | Inr networkGasPriceGwei \<Rightarrow>
                       (case parseUnitsGwei env (minGasPrice inst) of
                          Inl e \<Rightarrow> Inl e
                        | Inr minGasPriceWei \<Rightarrow>
                            (let adjustedFee = (if baseWithPriority < minGasPriceWei
                                                then minGasPriceWei else baseWithPriority)
                             in case toNumber adjustedFee of
                                  Inl e \<Rightarrow> Inl e
                                | Inr n \<Rightarrow>
                                    (let totalFeeGwei = n * (1 / 10 ^ 9)
                                     in Inr (totalFeeGwei,
                                             \<lparr>timestamp = gas_nowAtStore env,
                                              gasPrice = totalFeeGwei,
                                              est_maxFeePerGas = None,
                                              est_maxPriorityFeePerGas = None,
                                              isEIP1559 = Some False\<rparr>)))))))"

text \<open>Lines 244-287: the legacy estimation with its \<^verbatim>\<open>catch\<close>, which returns the minimum.\<close>

definition estimateGasPrice_fallback ::
  "ethereum \<Rightarrow> gas_env \<Rightarrow> gas_price_estimate option
     \<Rightarrow> (rpc_error + rat) \<times> gas_price_estimate option" where
  "estimateGasPrice_fallback inst env cache =
     (case estimateGasPrice_legacy inst env of
        Inr (v, c) \<Rightarrow> (Inr v, Some c)
      | Inl error \<Rightarrow> (Inr (minGasPrice inst), cache))"

text \<open>\<^verbatim>\<open>Ethereum.estimateGasPrice\<close>, lines 133-288.\<close>

definition estimateGasPrice ::
  "ethereum \<Rightarrow> gas_env \<Rightarrow> gas_price_estimate option
     \<Rightarrow> (rpc_error + rat) \<times> gas_price_estimate option" where
  "estimateGasPrice inst env cache =
     (case (case cache of
              None \<Rightarrow> None
            | Some c \<Rightarrow> if gas_now env - timestamp c < GAS_PRICE_CACHE_MS
                        then Some (gasPrice c) else None) of
        Some cached \<Rightarrow> (Inr cached, cache)
      | None \<Rightarrow>
          if supportsEIP1559 (network inst)
          then (case estimateGasPrice_eip1559 inst env of
                  Inr (v, c) \<Rightarrow> (Inr v, Some c)
                | Inl error \<Rightarrow> estimateGasPrice_fallback inst env cache)
          else estimateGasPrice_fallback inst env cache)"

record gas_options =
  gasLimit :: int
  txType :: nat
  opt_maxFeePerGas :: "int option"
  opt_maxPriorityFeePerGas :: "int option"
  opt_gasPrice :: "int option"

definition DEFAULT_GAS_LIMIT :: int where
  "DEFAULT_GAS_LIMIT = 300000"

text \<open>The test \<^verbatim>\<open>isEIP1559 && maxFeePerGas !== undefined && maxPriorityFeePerGas !== undefined\<close>.\<close>

definition cachedEIP1559 :: "gas_price_estimate option \<Rightarrow> (rat \<times> rat) option" where
  "cachedEIP1559 cache =
     (case cache of
        None \<Rightarrow> None
      | Some c \<Rightarrow>
          if isEIP1559 c = Some True
          then (case (est_maxFeePerGas c, est_maxPriorityFeePerGas c) of
                  (Some a, Some b) \<Rightarrow> Some (a, b)
                | _ \<Rightarrow> None)
          else None)"

text \<open>A type 2 transaction: both dynamic fees, converted to WEI.\<close>

definition eip1559Options ::
  "(rat \<Rightarrow> rpc_error + int) \<Rightarrow> int \<Rightarrow> rat \<Rightarrow> rat \<Rightarrow> rpc_error + gas_options" where
  "eip1559Options parseUnits gl maxFee priorityFee =
     (case parseUnits maxFee of
        Inl e \<Rightarrow> Inl e
      | Inr maxFeeWei \<Rightarrow>
          (case parseUnits priorityFee of
             Inl e \<Rightarrow> Inl e
           | Inr priorityWei \<Rightarrow>
               Inr \<lparr>gasLimit = gl, txType = 2, opt_maxFeePerGas = Some maxFeeWei,
                    opt_maxPriorityFeePerGas = Some priorityWei, opt_gasPrice = None\<rparr>))"

text \<open>Lines 369-375: a type 0 transaction with a single gas price.\<close>

definition legacyOptions ::
  "ethereum \<Rightarrow> gas_env \<Rightarrow> rat option \<Rightarrow> int \<Rightarrow> gas_price_estimate option
     \<Rightarrow> (rpc_error + gas_options) \<times> gas_price_estimate option" where
  "legacyOptions inst env gasPriceArg gl cache =
     (case (case gasPriceArg of
              Some g \<Rightarrow> (Inr g, cache)
            | None \<Rightarrow> estimateGasPrice inst env cache) of
        (Inl e, cache') \<Rightarrow> (Inl e, cache')
      | (Inr gasPriceInGwei, cache') \<Rightarrow>
          (case parseUnitsGwei env gasPriceInGwei of
             Inl e \<Rightarrow> (Inl e, cache')
           | Inr w \<Rightarrow>
               (Inr \<lparr>gasLimit = gl, txType = 0, opt_maxFeePerGas = None,
                     opt_maxPriorityFeePerGas = None, opt_gasPrice = Some w\<rparr>, cache')))"

text \<open>
  \<^verbatim>\<open>Ethereum.prepareGasOptions\<close>, lines 296-376. The function can call the estimator
  twice; each call has its own environment.
\<close>

definition truthyPrice :: "rat option \<Rightarrow> rat option" where
  "truthyPrice g = (case g of None \<Rightarrow> None | Some x \<Rightarrow> if x = 0 then None else Some x)"

definition prepareGasOptions ::
  "ethereum \<Rightarrow> gas_env \<Rightarrow> gas_env \<Rightarrow> rat option \<Rightarrow> int option \<Rightarrow> gas_price_estimate option
     \<Rightarrow> (rpc_error + gas_options) \<times> gas_price_estimate option" where
  "prepareGasOptions inst env1 env2 gasPriceArg gasLimitArg cache =
     (let gl = (case gasLimitArg of None \<Rightarrow> DEFAULT_GAS_LIMIT | Some g \<Rightarrow> g)
      in if supportsEIP1559 (network inst)
         then (case truthyPrice gasPriceArg of
                 Some g \<Rightarrow>
                   (eip1559Options (parseUnitsGwei env1) gl g
                      (case maxPriorityFeePerGas inst of
                         None \<Rightarrow> 1 / 100
                       | Some p \<Rightarrow> if p = 0 then 1 / 100 else p), cache)
               | None \<Rightarrow>
                   (case cachedEIP1559 cache of
                      Some (a, b) \<Rightarrow> (eip1559Options (parseUnitsGwei env1) gl a b, cache)
                    | None \<Rightarrow>
                        (case estimateGasPrice inst env1 cache of
                           (Inl e, cache') \<Rightarrow> (Inl e, cache')
                         | (Inr v, cache') \<Rightarrow>
                             (case cachedEIP1559 cache' of
                                Some (a, b) \<Rightarrow>
                                  (eip1559Options (parseUnitsGwei env1) gl a b, cache')
                              | None \<Rightarrow> legacyOptions inst env2 gasPriceArg gl cache'))))
         else legacyOptions inst env1 gasPriceArg gl cache)"

section \<open>Balance queries\<close>

text \<open>ASCII case mapping, for \<^verbatim>\<open>toUpperCase\<close> and \<^verbatim>\<open>toLowerCase\<close>.\<close>

definition upperChar :: "char \<Rightarrow> char" where
  "upperChar c =
     (let n = (of_char c :: nat) in if 97 \<le> n \<and> n \<le> 122 then char_of (n - 32) else c)"

definition lowerChar :: "char \<Rightarrow> char" where
  "lowerChar c =
     (let n = (of_char c :: nat) in if 65 \<le> n \<and> n \<le> 90 then char_of (n + 32) else c)"

definition toUpperCase :: "string \<Rightarrow> string" where
  "toUpperCase s = map upperChar s"

definition toLowerCase :: "string \<Rightarrow> string" where
  "toLowerCase s = map lowerChar s"

subsection \<open>EVM adapter\<close>

record token_value =
  tv_value :: int
  tv_decimals :: nat

text \<open>
  The answers to one call of \<^verbatim>\<open>Ethereum.getBalances\<close>: the wallet lookup, the balance
  reads (which can throw or time out), and the helpers \<^verbatim>\<open>parseFloat(tokenValueToString(v))\<close>
  and \<^verbatim>\<open>utils.getAddress\<close>, which are not part of the adapter.
\<close>

record balances_env =
  isHardwareWallet :: bool
  getWallet :: "rpc_error + unit"
  getNativeBalance :: "rpc_error + token_value"
  getNativeBalanceByAddress :: "rpc_error + token_value"
  getERC20Balance :: "TokenInfo \<Rightarrow> rpc_error + token_value"
  getERC20BalanceByAddress :: "TokenInfo \<Rightarrow> rpc_error + token_value"
  tokenValueToNumber :: "token_value \<Rightarrow> rat"
  getAddress :: "string \<Rightarrow> string option"

text \<open>
  \<^verbatim>\<open>storedTokenList\<close> is \<^verbatim>\<open>Object.values(tokenMap)\<close>, and \<^verbatim>\<open>loadTokens\<close> fills
  \<^verbatim>\<open>tokenMap\<close> by assigning every token of the list to its symbol: a later token
  replaces an earlier one of the same symbol, in the earlier one's place. (JavaScript lists
  keys that are array indices first; the order plays no role below.)
\<close>

definition tokenMap :: "ethereum \<Rightarrow> (string \<times> TokenInfo) list" where
  "tokenMap inst = foldl (\<lambda>m token. AList.update (symbol token) token m) [] (tokenList inst)"

definition storedTokenList :: "ethereum \<Rightarrow> TokenInfo list" where
  "storedTokenList inst = map snd (tokenMap inst)"

definition getToken :: "ethereum \<Rightarrow> balances_env \<Rightarrow> string \<Rightarrow> TokenInfo option" where
  "getToken inst env tokenSymbol =
     (case List.find (\<lambda>token. toUpperCase (symbol token) = toUpperCase tokenSymbol
                              \<and> token_chainId token = chainId inst) (tokenList inst) of
        Some tokenBySymbol \<Rightarrow> Some tokenBySymbol
      | None \<Rightarrow>
          (case getAddress env tokenSymbol of
             None \<Rightarrow> None
           | Some normalizedAddress \<Rightarrow>
               List.find (\<lambda>token. toLowerCase (address token) = toLowerCase normalizedAddress
                                  \<and> token_chainId token = chainId inst) (tokenList inst)))"

definition erc20Balance :: "balances_env \<Rightarrow> TokenInfo \<Rightarrow> rpc_error + token_value" where
  "erc20Balance env token =
     (if isHardwareWallet env then getERC20BalanceByAddress env token
      else getERC20Balance env token)"

text \<open>
  Lines 1070-1098. The callbacks run concurrently, each writing the key of its own token;
  the symbols of \<^verbatim>\<open>storedTokenList\<close> are distinct, so the order does not matter.
\<close>

definition getAllTokenBalances ::
  "ethereum \<Rightarrow> balances_env \<Rightarrow> (string \<rightharpoonup> rat) \<Rightarrow> (string \<rightharpoonup> rat)" where
  "getAllTokenBalances inst env balances =
     foldl (\<lambda>b token.
              case erc20Balance env token of
                Inl e \<Rightarrow> b
              | Inr balance \<Rightarrow>
                  (let balanceNum = tokenValueToNumber env balance
                   in if balanceNum > 0 then b(symbol token \<mapsto> balanceNum) else b))
       balances (storedTokenList inst)"

text \<open>Lines 1103-1136, in the order of the request.\<close>

definition getSpecificTokenBalances ::
  "ethereum \<Rightarrow> balances_env \<Rightarrow> string list \<Rightarrow> (string \<rightharpoonup> rat) \<Rightarrow> (string \<rightharpoonup> rat)" where
  "getSpecificTokenBalances inst env tokens balances =
     foldl (\<lambda>b symbolOrAddress.
              if symbolOrAddress = nativeTokenSymbol inst then b
              else (case getToken inst env symbolOrAddress of
                      Some token \<Rightarrow>
                        (case erc20Balance env token of
                           Inr balance \<Rightarrow> b(symbol token \<mapsto> tokenValueToNumber env balance)
                         | Inl e \<Rightarrow> b(symbol token \<mapsto> 0))
                    | None \<Rightarrow> b(symbolOrAddress \<mapsto> 0)))
       balances tokens"

text \<open>\<^verbatim>\<open>Ethereum.getBalances\<close>, lines 1036-1065.\<close>

definition getBalances ::
  "ethereum \<Rightarrow> balances_env \<Rightarrow> string list option \<Rightarrow> rpc_error + (string \<rightharpoonup> rat)" where
  "getBalances inst env tokens =
     (let effectiveTokens = (case tokens of Some [] \<Rightarrow> None | t \<Rightarrow> t)
      in case (if isHardwareWallet env then Inr () else getWallet env) of
           Inl e \<Rightarrow> Inl e
         | Inr wallet \<Rightarrow>
             (case (if isHardwareWallet env then getNativeBalanceByAddress env
                    else getNativeBalance env) of
                Inl e \<Rightarrow> Inl e
              | Inr nativeBalance \<Rightarrow>
                  (let balances = [nativeTokenSymbol inst \<mapsto> tokenValueToNumber env nativeBalance]
                   in case effectiveTokens of
                        None \<Rightarrow> Inr (getAllTokenBalances inst env balances)
                      | Some ts \<Rightarrow> Inr (getSpecificTokenBalances inst env ts balances))))"

subsection \<open>Solana adapter\<close>

record sol_token =
  sol_address :: string
  sol_symbol :: string
  sol_decimals :: nat

record token_account =
  ta_amount :: nat

text \<open>
  The adapter's token list and the answers to one call of \<^verbatim>\<open>Solana.getBalances\<close>:
  whether the address parses as a public key, the lamports of the account, the map of
  token accounts by mint that \<^verbatim>\<open>fetchTokenAccounts\<close> builds (it catches its own
  errors), and the decimals \<^verbatim>\<open>getMint\<close> reports.
\<close>

record sol_balances_env =
  sol_tokenList :: "sol_token list"
  isValidSolanaAddress :: "string \<Rightarrow> bool"
  getBalance :: "rpc_error + nat"
  fetchTokenAccounts :: "(string \<times> token_account) list"
  getMint :: "string \<Rightarrow> rpc_error + nat"



definition getTokenBalance :: "token_account option \<Rightarrow> nat \<Rightarrow> rat" where
  "getTokenBalance tokenAccount d =
     (case tokenAccount of None \<Rightarrow> 0 | Some a \<Rightarrow> of_nat (ta_amount a) / 10 ^ d)"








section \<open>Specification predicates and example inputs\<close>

text \<open>
  A status that is neither an execution error nor a confirmation: the transaction is not
  yet confirmed.
\<close>

definition notYetConfirmed :: "signature_status option \<Rightarrow> bool" where
  "notYetConfirmed s =
     (case s of None \<Rightarrow> True
      | Some st \<Rightarrow> err st = None \<and> confirmationStatus st \<noteq> Some Confirmed
                       \<and> confirmationStatus st \<noteq> Some Finalized)"

definition notFoundPoll :: "nat \<Rightarrow> poll_responses" where
  "notFoundPoll height =
     \<lparr>getSignatureStatuses = Inr None, getTransaction = Inr None,
      getBlockHeight = Inr height, resendRawTransaction = Inr ''5sig''\<rparr>"

definition confirmedPoll :: poll_responses where
  "confirmedPoll =
     \<lparr>getSignatureStatuses = Inr (Some \<lparr>err = None, confirmationStatus = Some Confirmed\<rparr>),
      getTransaction = Inr (Some \<lparr>meta = Some \<lparr>fee = Some 5000\<rparr>\<rparr>),
      getBlockHeight = Inr 152, resendRawTransaction = Inr ''5sig''\<rparr>"

definition failingPoll :: poll_responses where
  "failingPoll =
     \<lparr>getSignatureStatuses = Inl (RpcError ''fetch failed''), getTransaction = Inr None,
      getBlockHeight = Inr 100, resendRawTransaction = Inr ''5sig''\<rparr>"

definition scenarioB :: send_env where
  "scenarioB =
     \<lparr>getLatestBlockhash = Inr (''hash'', 150), heliusService = None,
      sendRawTransaction = Inr ''5sig'',
      polls = (\<lambda>k. if k \<le> 3 then notFoundPoll 149
                   else if k = 4 then notFoundPoll 151 else confirmedPoll)\<rparr>"


definition examplePayload :: "byte list" where
  "examplePayload = [1, 0, 255]"


definition rpcDown :: poll_responses where
  "rpcDown =
     \<lparr>getSignatureStatuses = Inl (RpcError ''fetch failed''), getTransaction = Inl (RpcError ''fetch failed''),
      getBlockHeight = Inl (RpcError ''fetch failed''), resendRawTransaction = Inl (RpcError ''fetch failed'')\<rparr>"

definition erroredPoll :: poll_responses where
  "erroredPoll =
     \<lparr>getSignatureStatuses =
        Inr (Some \<lparr>err = Some ''InstructionError'', confirmationStatus = Some Confirmed\<rparr>),
      getTransaction = Inr (Some \<lparr>meta = Some \<lparr>fee = Some 5000\<rparr>\<rparr>),
      getBlockHeight = Inr 100, resendRawTransaction = Inr ''5sig''\<rparr>"

definition exampleOwner :: string where
  "exampleOwner = ''7xKXtg2CW87d97TXJSDpbD5jBkheTqA83TZRuJosgAsU''"

definition exampleMint :: string where
  "exampleMint = ''EPjFWdd5AufqSSqeM2qN1xzybapC8G4wEGGkZwyTDt1v''"

text \<open>
  A transaction that moves one smallest unit of a token with 18 decimals into an account
  holding \<open>10^18\<close> units. The RPC node reports \<^verbatim>\<open>uiAmount\<close> as a double, and the
  nearest double to \<open>1.000000000000000001\<close> is \<open>1\<close>.
\<close>

definition preHolding :: ui_token_amount where
  "preHolding = \<lparr>amount = 1000000000000000000, decimals = 18, uiAmount = Some 1\<rparr>"

definition postHolding :: ui_token_amount where
  "postHolding = \<lparr>amount = 1000000000000000001, decimals = 18, uiAmount = Some 1\<rparr>"

definition oneUnitTransfer :: parsed_tx where
  "oneUnitTransfer =
     \<lparr>accountKeys = [exampleOwner],
      parsed_meta = Some
        \<lparr>parsed_fee = Some 5000, preBalances = [2000000000], postBalances = [1999995000],
         preTokenBalances =
           Some [\<lparr>mint = exampleMint, owner = Some exampleOwner, uiTokenAmount = preHolding\<rparr>],
         postTokenBalances =
           Some [\<lparr>mint = exampleMint, owner = Some exampleOwner, uiTokenAmount = postHolding\<rparr>]\<rparr>\<rparr>"

definition oneUnitTransferEnv :: extract_env where
  "oneUnitTransferEnv =
     \<lparr>getParsedTransaction = Inr (Some oneUnitTransfer), validPublicKey = (\<lambda>k. True)\<rparr>"

text \<open>
  The delta the specification asks for: the difference of the raw amounts, divided by
  \<open>10^decimals\<close>.
\<close>

definition spec_balanceDelta :: "ui_token_amount \<Rightarrow> ui_token_amount \<Rightarrow> rat" where
  "spec_balanceDelta pre post =
     of_int (int (amount post) - int (amount pre)) / 10 ^ decimals post"

definition revertedReceipt :: tx_receipt where
  "revertedReceipt =
     \<lparr>transactionHash = ''0xabc'', receipt_status = Some 0, gasUsed = 21000,
      effectiveGasPrice = 1000000000\<rparr>"

text \<open>Whether the cached estimate is younger than the time to live at time \<open>t\<close>.\<close>

definition priorityFeeCacheFresh :: "int \<Rightarrow> priority_fee_estimate option \<Rightarrow> bool" where
  "priorityFeeCacheFresh t cache =
     (case cache of None \<Rightarrow> False | Some c \<Rightarrow> t - pf_timestamp c < PRIORITY_FEE_CACHE_MS)"

definition gasPriceCacheFresh :: "int \<Rightarrow> gas_price_estimate option \<Rightarrow> bool" where
  "gasPriceCacheFresh t cache =
     (case cache of None \<Rightarrow> False | Some c \<Rightarrow> t - timestamp c < GAS_PRICE_CACHE_MS)"




text \<open>Exactly one pricing style: dynamic fees without a gas price, or a gas price alone.\<close>

definition onePricingStyle :: "gas_options \<Rightarrow> bool" where
  "onePricingStyle opts =
     ((txType opts = 2 \<and> opt_maxFeePerGas opts \<noteq> None \<and> opt_maxPriorityFeePerGas opts \<noteq> None
         \<and> opt_gasPrice opts = None)
      \<or> (txType opts = 0 \<and> opt_gasPrice opts \<noteq> None \<and> opt_maxFeePerGas opts = None
         \<and> opt_maxPriorityFeePerGas opts = None))"

text \<open>A decimal parser that is exact and rejects more than nine fractional digits.\<close>

definition exactParseUnits :: "rat \<Rightarrow> rpc_error + int" where
  "exactParseUnits x =
     (if of_int \<lfloor>x * 10 ^ 9\<rfloor> = x * 10 ^ 9 then Inr \<lfloor>x * 10 ^ 9\<rfloor>
      else Inl (RpcError ''fractional component exceeds decimals''))"

definition cfgLowFloor :: SolanaNetworkConfig where
  "cfgLowFloor =
     \<lparr>useHeliusRestRPC = True, heliusAPIKey = Some ''0a1b2c'', minPriorityFeePerCU = Some (1 / 10)\<rparr>"

definition cfgHighFloor :: SolanaNetworkConfig where
  "cfgHighFloor =
     \<lparr>useHeliusRestRPC = True, heliusAPIKey = Some ''0a1b2c'', minPriorityFeePerCU = Some 5\<rparr>"

definition oracleZero :: priority_fee_env where
  "oracleZero = \<lparr>now = 0, fetchReply = PriorityFeeEstimate 0, nowAtStore = 10\<rparr>"

definition oracleDown :: priority_fee_env where
  "oracleDown = \<lparr>now = 0, fetchReply = FetchThrows (RpcError ''fetch failed''), nowAtStore = 10\<rparr>"

definition oracleLater :: priority_fee_env where
  "oracleLater = \<lparr>now = 1000, fetchReply = PriorityFeeEstimate 5000000, nowAtStore = 1010\<rparr>"

definition bscInst :: ethereum where
  "bscInst =
     \<lparr>network = ''bsc'', nativeTokenSymbol = ''BNB'', chainId = 56, minGasPrice = 1 / 10,
      maxFeePerGas = None, maxPriorityFeePerGas = None, etherscanService = False,
      tokenList = []\<rparr>"

definition mainnetInst :: ethereum where
  "mainnetInst =
     \<lparr>network = ''mainnet'', nativeTokenSymbol = ''ETH'', chainId = 1, minGasPrice = 1,
      maxFeePerGas = None, maxPriorityFeePerGas = None, etherscanService = False,
      tokenList = []\<rparr>"

definition gasEnvLow :: gas_env where
  "gasEnvLow =
     \<lparr>gas_now = 0, getRecommendedGasPrices = Inl (RpcError ''no etherscan''),
      getFeeData = Inl (RpcError ''fetch failed''), getBlock = Inl (RpcError ''fetch failed''),
      getGasPrice = Inr 50000000, eth_maxPriorityFeePerGas = Inr 0, gas_nowAtStore = 10,
      parseUnitsGwei = exactParseUnits\<rparr>"

definition gasEnvDown :: gas_env where
  "gasEnvDown =
     \<lparr>gas_now = 0, getRecommendedGasPrices = Inl (RpcError ''no etherscan''),
      getFeeData = Inl (RpcError ''fetch failed''), getBlock = Inl (RpcError ''fetch failed''),
      getGasPrice = Inl (RpcError ''fetch failed''),
      eth_maxPriorityFeePerGas = Inl (RpcError ''fetch failed''), gas_nowAtStore = 10,
      parseUnitsGwei = exactParseUnits\<rparr>"

definition gasEnvLater :: gas_env where
  "gasEnvLater =
     \<lparr>gas_now = 1000, getRecommendedGasPrices = Inl (RpcError ''no etherscan''),
      getFeeData = Inr \<lparr>fd_maxFeePerGas = Some 30000000000, fd_maxPriorityFeePerGas = Some 1000000000\<rparr>,
      getBlock = Inr \<lparr>baseFeePerGas = Some 12000000000\<rparr>,
      getGasPrice = Inr 13000000000, eth_maxPriorityFeePerGas = Inr 1000000000,
      gas_nowAtStore = 1010, parseUnitsGwei = exactParseUnits\<rparr>"







text \<open>The bodies of the loops over the token list, named for the proofs.\<close>

definition allStep :: "balances_env \<Rightarrow> (string \<rightharpoonup> rat) \<Rightarrow> TokenInfo \<Rightarrow> (string \<rightharpoonup> rat)" where
  "allStep env b token =
     (case erc20Balance env token of
        Inl e \<Rightarrow> b
      | Inr balance \<Rightarrow>
          (let balanceNum = tokenValueToNumber env balance
           in if balanceNum > 0 then b(symbol token \<mapsto> balanceNum) else b))"






definition spec_tokenAmount :: "sol_balances_env \<Rightarrow> sol_token \<Rightarrow> rat" where
  "spec_tokenAmount env t =
     (case map_of (fetchTokenAccounts env) (sol_address t) of
        None \<Rightarrow> 0
      | Some a \<Rightarrow> of_nat (ta_amount a) / 10 ^ sol_decimals t)"










section \<open>Verified properties\<close>

declare pollLoop.simps [simp del]

subsection \<open>Submission and confirmation engine\<close>

lemma checkBlockhashExpired_resent:
  "checkBlockhashExpired r tx lvb = Next rs \<Longrightarrow> set rs \<subseteq> {tx}"
  by (auto simp: checkBlockhashExpired_def split: sum.splits if_splits)

lemma pollOnce_resent: "pollOnce r tx sig lvb = Next rs \<Longrightarrow> set rs \<subseteq> {tx}"
  by (auto simp: pollOnce_def split: sum.splits option.splits if_splits dest: checkBlockhashExpired_resent)

lemma pollLoop_unfold_return:
  "a < maxPollingAttempts \<Longrightarrow> pollOnce (env (a + 1)) tx sig lvb = Return r
     \<Longrightarrow> pollLoop env tx sig lvb a sent = (r, a + 1, sent)"
  by (simp add: pollLoop.simps)

lemma pollLoop_unfold_next:
  "a < maxPollingAttempts \<Longrightarrow> pollOnce (env (a + 1)) tx sig lvb = Next rs
     \<Longrightarrow> pollLoop env tx sig lvb a sent = pollLoop env tx sig lvb (a + 1) (sent @ rs)"
  by (simp add: pollLoop.simps)

lemma pollLoop_unfold_done:
  "\<not> a < maxPollingAttempts
     \<Longrightarrow> pollLoop env tx sig lvb a sent = (\<lparr>confirmed = False, signature = sig, txData = None\<rparr>, a, sent)"
  by (simp add: pollLoop.simps)

lemma pollLoop_sent:
  "pollLoop env tx sig lvb a sent = (res, n, sent') \<Longrightarrow> set sent \<subseteq> {tx} \<Longrightarrow> set sent' \<subseteq> {tx}"
proof (induction env tx sig lvb a sent rule: pollLoop.induct)
  case (1 env tx sig lvb a sent)
  show ?case
  proof (cases "a < maxPollingAttempts")
    case False
    with "1.prems" show ?thesis by (simp add: pollLoop_unfold_done)
  next
    case True
    show ?thesis
    proof (cases "pollOnce (env (a + 1)) tx sig lvb")
      case (Return r)
      with True "1.prems" show ?thesis by (simp add: pollLoop_unfold_return)
    next
      case (Next rs)
      from pollOnce_resent[OF Next] "1.prems"(2) have "set (sent @ rs) \<subseteq> {tx}" by auto
      moreover from True Next "1.prems"(1)
      have "pollLoop env tx sig lvb (a + 1) (sent @ rs) = (res, n, sent')"
        by (simp add: pollLoop_unfold_next)
      ultimately show ?thesis using "1.IH"[OF True Next] by blast
    qed
  qed
qed

lemma firstBroadcast_sent: "firstBroadcast env tx = (r, sent) \<Longrightarrow> set sent \<subseteq> {tx}"
  by (auto simp: firstBroadcast_def split: option.splits sum.splits)

lemma priv_sent:
  "priv_sendAndConfirmRawTransaction env tx = (r, n, sent) \<Longrightarrow> set sent \<subseteq> {tx}"
  unfolding priv_sendAndConfirmRawTransaction_def
  by (auto split: sum.splits prod.splits option.splits if_splits
      dest!: firstBroadcast_sent pollLoop_sent)




text \<open>
  Claim C1. Every payload handed to the transport by \<^verbatim>\<open>_sendAndConfirmRawTransaction\<close>
  (the first broadcast, the fallback after a failed Helius send, and every re-broadcast made
  while polling) is the serialized transaction the function was given: nothing is signed
  again or rebuilt. In particular, a poll that finds the transaction not yet confirmed while
  the block height has passed \<^verbatim>\<open>lastValidBlockHeight\<close> re-sends exactly that payload, once.
\<close>

theorem rebroadcast_same_payload:
  "(\<forall>p \<in> set (snd (snd (priv_sendAndConfirmRawTransaction env serializedTx))). p = serializedTx)
   \<and> (getSignatureStatuses r = Inr s \<longrightarrow> notYetConfirmed s \<longrightarrow> getBlockHeight r = Inr h
        \<longrightarrow> lastValidBlockHeight < h
        \<longrightarrow> pollOnce r serializedTx sig lastValidBlockHeight = Next [serializedTx])"
proof
  obtain res n sent where eq: "priv_sendAndConfirmRawTransaction env serializedTx = (res, n, sent)"
    by (cases "priv_sendAndConfirmRawTransaction env serializedTx") auto
  from priv_sent[OF eq] show "\<forall>p \<in> set (snd (snd (priv_sendAndConfirmRawTransaction env serializedTx))). p = serializedTx"
    by (auto simp: eq)
next
  show "getSignatureStatuses r = Inr s \<longrightarrow> notYetConfirmed s \<longrightarrow> getBlockHeight r = Inr h
        \<longrightarrow> lastValidBlockHeight < h
        \<longrightarrow> pollOnce r serializedTx sig lastValidBlockHeight = Next [serializedTx]"
    by (auto simp: pollOnce_def notYetConfirmed_def checkBlockhashExpired_def
        split: option.splits sum.splits)
qed

lemmas eval_poll = priv_sendAndConfirmRawTransaction_def firstBroadcast_def pollLoop.simps
     maxPollingAttempts_def pollOnce_def checkBlockhashExpired_def notFoundPoll_def confirmedPoll_def
     failingPoll_def rpcDown_def notYetConfirmed_def

text \<open>
  The first three polls do not find the transaction, the fourth comes after the validity
  window and re-sends the payload once, the fifth sees the confirmation.
\<close>

theorem rebroadcast_same_payload_witness:
  "snd (snd (priv_sendAndConfirmRawTransaction scenarioB examplePayload))
     = [examplePayload, examplePayload]
   \<and> getSignatureStatuses (polls scenarioB 4) = Inr None \<and> notYetConfirmed None
   \<and> getBlockHeight (polls scenarioB 4) = Inr 151 \<and> (150::nat) < 151
   \<and> pollOnce (polls scenarioB 4) examplePayload ''5sig'' 150 = Next [examplePayload]"
  using rebroadcast_same_payload [of scenarioB examplePayload "polls scenarioB 4" None 151 150 "''5sig''"]
  by (simp add: eval_poll scenarioB_def)




subsection \<open>Settlement and status determination\<close>

lemma pollOnce_error_first:
  "getSignatureStatuses r = Inr (Some st) \<Longrightarrow> err st \<noteq> None
     \<Longrightarrow> pollOnce r tx sig lvb = Return \<lparr>confirmed = False, signature = sig, txData = None\<rparr>"
  by (simp add: pollOnce_def)

lemma handleConfirmation_status_1:
  assumes "handleConfirmation env sig conf txd tIn tOut wallet sd = Inr resp" and "status resp = 1"
  shows "conf \<and> txd \<noteq> None \<and> (\<exists>p. getParsedTransaction env = Inr (Some p))"
proof (cases "conf \<and> txd \<noteq> None")
  case True
  with assms show ?thesis
    by (auto simp: handleConfirmation_def extractBalanceChangesAndFee_def
        split: sum.splits option.splits if_splits)
next
  case False
  with assms show ?thesis
    by (auto simp: handleConfirmation_def split: if_splits)
qed

lemma sendAndConfirmTransaction_success:
  "sendAndConfirmTransaction senv tx = Inr (sg, f)
     \<Longrightarrow> \<exists>res. fst (priv_sendAndConfirmRawTransaction senv tx) = Inr res
                \<and> confirmed res \<and> txData res \<noteq> None \<and> sg = signature res"
  by (auto simp: sendAndConfirmTransaction_def split: sum.splits if_splits)

lemma handleTransactionConfirmation_status_1:
  "status (handleTransactionConfirmation rcpt inTok outTok ain aout sd) = 1
     \<Longrightarrow> \<exists>rc. rcpt = Some rc \<and> receipt_status rc = Some 1"
  by (auto simp: handleTransactionConfirmation_def split: option.splits if_splits)

text \<open>
  Claim C5. In a poll iteration a status that carries an execution error returns a result
  that is not confirmed, whatever its confirmation status, before the confirmation status is
  looked at. Status 1 is reported by \<^verbatim>\<open>handleConfirmation\<close> only when the result is confirmed
  and the transaction data is present (and the parsed transaction has been fetched);
  \<^verbatim>\<open>sendAndConfirmTransaction\<close> returns a signature and a fee only then; the EVM helper
  reports status 1 only for a receipt whose status is 1.
\<close>

theorem error_first_and_confirmed_needs_data:
  "(getSignatureStatuses r = Inr (Some st) \<longrightarrow> err st \<noteq> None
      \<longrightarrow> pollOnce r serializedTx sig lvb
            = Return \<lparr>confirmed = False, signature = sig, txData = None\<rparr>)
   \<and> (handleConfirmation env sig conf txd tIn tOut wallet sd = Inr resp \<longrightarrow> status resp = 1
        \<longrightarrow> conf \<and> txd \<noteq> None \<and> (\<exists>p. getParsedTransaction env = Inr (Some p)))
   \<and> (sendAndConfirmTransaction senv serializedTx = Inr (sg, f)
        \<longrightarrow> (\<exists>res. fst (priv_sendAndConfirmRawTransaction senv serializedTx) = Inr res
                \<and> confirmed res \<and> txData res \<noteq> None \<and> sg = signature res))
   \<and> (status (handleTransactionConfirmation rcpt inTok outTok ain aout sd') = 1
        \<longrightarrow> (\<exists>rc. rcpt = Some rc \<and> receipt_status rc = Some 1))"
  using pollOnce_error_first [of r st serializedTx sig lvb]
    handleConfirmation_status_1 [of env sig conf txd tIn tOut wallet sd resp]
    sendAndConfirmTransaction_success [of senv serializedTx sg f]
    handleTransactionConfirmation_status_1 [of rcpt inTok outTok ain aout sd']
  by blast

lemmas eval_extract = handleConfirmation_def extractBalanceChangesAndFee_def balanceChange_def
  oneUnitTransferEnv_def oneUnitTransfer_def uiAmountOf_def preHolding_def postHolding_def
  exampleOwner_def exampleMint_def SOL_NATIVE_MINT_def at_index_def LAMPORT_TO_SOL_def
  getFee_def

text \<open>
  A status that is both failed and confirmed yields the result that is not confirmed; the
  confirmed results below all come with their data.
\<close>

theorem error_first_and_confirmed_needs_data_witness:
  "getSignatureStatuses erroredPoll
     = Inr (Some \<lparr>err = Some ''InstructionError'', confirmationStatus = Some Confirmed\<rparr>)
   \<and> pollOnce erroredPoll examplePayload ''5sig'' 150
       = Return \<lparr>confirmed = False, signature = ''5sig'', txData = None\<rparr>
   \<and> (\<exists>resp. handleConfirmation oneUnitTransferEnv ''5sig'' True
                (Some \<lparr>meta = Some \<lparr>fee = Some 5000\<rparr>\<rparr>) SOL_NATIVE_MINT exampleMint
                exampleOwner None = Inr resp \<and> status resp = 1)
   \<and> sendAndConfirmTransaction scenarioB examplePayload = Inr (''5sig'', 1 / 200000)
   \<and> fst (priv_sendAndConfirmRawTransaction scenarioB examplePayload)
       = Inr \<lparr>confirmed = True, signature = ''5sig'',
              txData = Some \<lparr>meta = Some \<lparr>fee = Some 5000\<rparr>\<rparr>\<rparr>
   \<and> status (handleTransactionConfirmation
               (Some (revertedReceipt\<lparr>receipt_status := Some 1\<rparr>)) ''WETH'' ''USDC''
               (Num 1) (Num 3000) None) = 1"
  using error_first_and_confirmed_needs_data
    [of erroredPoll "\<lparr>err = Some ''InstructionError'', confirmationStatus = Some Confirmed\<rparr>"
        examplePayload "''5sig''" 150 oneUnitTransferEnv True
        "Some \<lparr>meta = Some \<lparr>fee = Some 5000\<rparr>\<rparr>" SOL_NATIVE_MINT exampleMint exampleOwner None
        _ scenarioB "''5sig''" "1 / 200000"
        "Some (revertedReceipt\<lparr>receipt_status := Some 1\<rparr>)" "''WETH''" "''USDC''" "Num 1" "Num 3000" None]
  by (simp add: eval_poll eval_extract erroredPoll_def scenarioB_def sendAndConfirmTransaction_def
      handleTransactionConfirmation_def revertedReceipt_def Let_def)

lemma handleConfirmation_not_confirmed:
  "handleConfirmation env sig False (Some d) tIn tOut wallet sd
     = Inr \<lparr>resp_signature = sig, status = - 1,
            data = Some \<lparr>tokenIn = tIn, tokenOut = tOut, amountIn = Num 0, amountOut = Num 0,
              data_fee = Num (getFee (Some d)),
              baseTokenBalanceChange = Num 0, quoteTokenBalanceChange = Num 0\<rparr>\<rparr>"
  by (simp add: handleConfirmation_def)

lemma handleTransactionConfirmation_reverted:
  "receipt_status r = Some 0
     \<Longrightarrow> handleTransactionConfirmation (Some r) inTok outTok ain aout sd
         = \<lparr>resp_signature = transactionHash r, status = - 1,
            data = Some \<lparr>tokenIn = inTok, tokenOut = outTok, amountIn = Num 0, amountOut = Num 0,
              data_fee = Num 0, baseTokenBalanceChange = Num 0,
              quoteTokenBalanceChange = Num 0\<rparr>\<rparr>"
  by (simp add: handleTransactionConfirmation_def)

text \<open>
  Claim C4 (the code departs from it). For a receipt with status 0 the EVM helper reports
  status -1 and zero amounts, but its fee is the constant 0, although the receipt carries
  \<^verbatim>\<open>gasUsed\<close> and \<^verbatim>\<open>effectiveGasPrice\<close>: here 21000 gas at 1 GWEI, a fee of 0.000021.
\<close>

theorem evm_reverted_reports_zero_fee:
  "handleTransactionConfirmation (Some revertedReceipt) ''WETH'' ''USDC'' (Num 1) (Num 3000) None
     = \<lparr>resp_signature = ''0xabc'', status = - 1,
        data = Some \<lparr>tokenIn = ''WETH'', tokenOut = ''USDC'', amountIn = Num 0, amountOut = Num 0,
          data_fee = Num 0, baseTokenBalanceChange = Num 0, quoteTokenBalanceChange = Num 0\<rparr>\<rparr>
   \<and> (of_int (gasUsed revertedReceipt * effectiveGasPrice revertedReceipt) / 10 ^ 18 :: rat)
       = 21 / 1000000"
  by (simp add: handleTransactionConfirmation_def revertedReceipt_def)

lemma formatTokenAmount_number:
  "formatTokenAmount pf (AmountNumber (Num r)) d = Num (r / 10 ^ d)"
  by (simp add: formatTokenAmount_def)

lemma balanceChange_spl:
  "token \<noteq> SOL_NATIVE_MINT \<Longrightarrow> parsed_meta tx = Some m
     \<Longrightarrow> preTokenBalances m = Some pre \<Longrightarrow> postTokenBalances m = Some post
     \<Longrightarrow> balanceChange tx ownr token = Num (uiAmountOf post token ownr - uiAmountOf pre token ownr)"
  by (simp add: balanceChange_def)

lemma spl_delta_exact_inputs:
  assumes "List.find (\<lambda>b. mint b = token \<and> owner b = Some ownr) pre = Some bp"
    and "List.find (\<lambda>b. mint b = token \<and> owner b = Some ownr) post = Some bq"
    and "uiAmount (uiTokenAmount bp)
           = Some (of_nat (amount (uiTokenAmount bp)) / 10 ^ decimals (uiTokenAmount bq))"
    and "uiAmount (uiTokenAmount bq)
           = Some (of_nat (amount (uiTokenAmount bq)) / 10 ^ decimals (uiTokenAmount bq))"
  shows "uiAmountOf post token ownr - uiAmountOf pre token ownr
           = spec_balanceDelta (uiTokenAmount bp) (uiTokenAmount bq)"
  using assms by (simp add: uiAmountOf_def spec_balanceDelta_def diff_divide_distrib)

text \<open>
  Claim C2 (the code departs from it). The claim asks for the delta \<open>r / 10^d\<close> computed from
  the raw amounts. For a token other than native SOL, \<^verbatim>\<open>extractBalanceChangesAndFee\<close>
  subtracts the two \<^verbatim>\<open>uiAmount\<close> values the node reports, which are already scaled. At the
  transaction below the raw delta is 1 with 18 decimals, so the specified delta is
  \<open>1 / 10^18\<close>, and the function reports 0.
\<close>

theorem spl_delta_taken_from_scaled_amounts:
  "extractBalanceChangesAndFee oneUnitTransferEnv ''5sig'' exampleOwner [exampleMint]
     = Inr ([Num 0], 1 / 200000)
   \<and> spec_balanceDelta preHolding postHolding = 1 / 10 ^ 18
   \<and> Num (spec_balanceDelta preHolding postHolding) \<noteq> Num 0"
  by (simp add: eval_extract spec_balanceDelta_def)

lemmas eval_fee = estimatePriorityFee_def estimatePriorityFee_try_def minimumFeeOf_def
  PRIORITY_FEE_CACHE_MS_def cfgLowFloor_def cfgHighFloor_def oracleZero_def oracleDown_def
  oracleLater_def js_trim_def isWhitespace_def Let_def

lemmas eval_gas = estimateGasPrice_def estimateGasPrice_eip1559_def estimateGasPrice_legacy_def
  estimateGasPrice_fallback_def networkFees_def supportsEIP1559_def toNumber_def
  GAS_PRICE_CACHE_MS_def bscInst_def mainnetInst_def gasEnvLow_def gasEnvDown_def gasEnvLater_def
  exactParseUnits_def

subsection \<open>Fee estimators\<close>


lemma estimateGasPrice_fallback_returns:
  "\<exists>v. fst (estimateGasPrice_fallback inst env cache) = Inr v"
  by (auto simp: estimateGasPrice_fallback_def split: sum.splits prod.splits)

lemma estimateGasPrice_returns:
  "\<exists>v. fst (estimateGasPrice inst env cache) = Inr v"
  using estimateGasPrice_fallback_returns [of inst env cache]
  by (auto simp: estimateGasPrice_def split: option.splits prod.splits sum.splits if_splits)







lemma estimatePriorityFee_floor_on_miss:
  "\<not> priorityFeeCacheFresh (now env) cache \<Longrightarrow> fst (estimatePriorityFee config env cache) = Inr v
     \<Longrightarrow> minimumFeeOf config \<le> v"
  by (auto simp: estimatePriorityFee_def estimatePriorityFee_try_def priorityFeeCacheFresh_def
      Let_def split: option.splits helius_reply.splits if_splits)

lemma minimumFeeOf_floor:
  "minPriorityFeePerCU config = Some m \<Longrightarrow> m \<le> minimumFeeOf config"
  by (simp add: minimumFeeOf_def)

lemma estimateGasPrice_eip1559_floor:
  "estimateGasPrice_eip1559 inst env = Inr (v, c) \<Longrightarrow> minGasPrice inst \<le> v"
  by (auto simp: estimateGasPrice_eip1559_def Let_def split: option.splits prod.splits if_splits)

lemma toNumber_value: "toNumber x = Inr n \<Longrightarrow> n = of_int x"
  by (auto simp: toNumber_def split: if_splits)

lemma estimateGasPrice_legacy_result:
  "estimateGasPrice_legacy inst env = Inr (v, c)
     \<Longrightarrow> \<exists>minWei adjusted. parseUnitsGwei env (minGasPrice inst) = Inr minWei
           \<and> minWei \<le> adjusted \<and> v = of_int adjusted * (1 / 10 ^ 9)"
  unfolding estimateGasPrice_legacy_def Let_def
  by (auto split: sum.splits if_splits dest!: toNumber_value simp del: of_int_add)

lemma estimateGasPrice_legacy_floor:
  assumes "\<forall>x w. parseUnitsGwei env x = Inr w \<longrightarrow> of_int w = x * 10 ^ 9"
    and "estimateGasPrice_legacy inst env = Inr (v, c)"
  shows "minGasPrice inst \<le> v"
proof -
  from estimateGasPrice_legacy_result[OF assms(2)] obtain minWei adjusted where
    p: "parseUnitsGwei env (minGasPrice inst) = Inr minWei"
    and le: "minWei \<le> adjusted" and v: "v = of_int adjusted * (1 / 10 ^ 9)"
    by blast
  from assms(1) p have m: "(of_int minWei :: rat) = minGasPrice inst * 10 ^ 9" by blast
  from le have "(of_int minWei :: rat) \<le> of_int adjusted" by simp
  with m have "minGasPrice inst * 10 ^ 9 \<le> of_int adjusted" by simp
  then show ?thesis unfolding v by (simp add: field_simps)
qed

lemma estimateGasPrice_floor_on_miss:
  assumes "\<forall>x w. parseUnitsGwei env x = Inr w \<longrightarrow> of_int w = x * 10 ^ 9"
    and "\<not> gasPriceCacheFresh (gas_now env) cache"
    and "fst (estimateGasPrice inst env cache) = Inr v"
  shows "minGasPrice inst \<le> v"
proof -
  from assms(2) have miss:
    "(case cache of None \<Rightarrow> None
      | Some c \<Rightarrow> if gas_now env - timestamp c < GAS_PRICE_CACHE_MS then Some (gasPrice c) else None)
       = None"
    by (auto simp: gasPriceCacheFresh_def split: option.splits)
  have fb: "fst (estimateGasPrice_fallback inst env cache) = Inr v \<Longrightarrow> minGasPrice inst \<le> v"
    using estimateGasPrice_legacy_floor[OF assms(1), of inst]
    by (auto simp: estimateGasPrice_fallback_def split: sum.splits prod.splits)
  from assms(3) show ?thesis
    unfolding estimateGasPrice_def miss
    by (auto split: if_splits sum.splits prod.splits dest: estimateGasPrice_eip1559_floor fb)
qed

text \<open>
  Claim C3 (the code departs from it). The claim asks that every call returns at least the
  configured minimum. The cache of each estimator is static and shared by all
  configurations, and a cache hit returns before any clamp: a quote of 0.1 cached under a
  minimum of 0.1 is returned one second later to a caller whose minimum is 5 (Solana),
  respectively 1 GWEI (EVM).
\<close>

theorem fee_floor_broken_by_shared_cache:
  "fst (estimatePriorityFee cfgHighFloor oracleLater
          (snd (estimatePriorityFee cfgLowFloor oracleZero None))) = Inr (1 / 10)
   \<and> minPriorityFeePerCU cfgHighFloor = Some 5
   \<and> fst (estimateGasPrice mainnetInst gasEnvLater
            (snd (estimateGasPrice bscInst gasEnvLow None))) = Inr (1 / 10)
   \<and> minGasPrice mainnetInst = 1"
  by (simp add: eval_fee eval_gas)

text \<open>
  Claim C8 as stated fails: a quote returned as a fallback is not cached. The first call
  finds the oracle down and returns the floor 0.1; the second call, one second later, gets
  an answer and returns 5.
\<close>

theorem quotes_differ_within_ttl:
  "fst (estimatePriorityFee cfgLowFloor oracleDown None) = Inr (1 / 10)
   \<and> fst (estimatePriorityFee cfgLowFloor oracleLater
            (snd (estimatePriorityFee cfgLowFloor oracleDown None))) = Inr 5
   \<and> now oracleLater - now oracleDown < PRIORITY_FEE_CACHE_MS"
  by (simp add: eval_fee)

lemma estimatePriorityFee_repeat:
  assumes "estimatePriorityFee cfg1 e1 c0 = (q1, Some c)" and "now e1 \<le> now e2"
    and "now e2 - pf_timestamp c < PRIORITY_FEE_CACHE_MS"
  shows "estimatePriorityFee cfg2 e2 (Some c) = (q1, Some c)"
proof -
  have "q1 = Inr (pf_fee c)"
    using assms
    by (auto simp: estimatePriorityFee_def estimatePriorityFee_try_def Let_def
        split: option.splits helius_reply.splits if_splits)
  with assms(3) show ?thesis by (simp add: estimatePriorityFee_def)
qed

lemma estimateGasPrice_fallback_cases:
  "estimateGasPrice_fallback inst env cache = (q, Some c) \<Longrightarrow> q = Inr (gasPrice c) \<or> cache = Some c"
  by (auto simp: estimateGasPrice_fallback_def estimateGasPrice_legacy_def Let_def
      split: sum.splits prod.splits if_splits)

lemma estimateGasPrice_eip1559_value:
  "estimateGasPrice_eip1559 inst env = Inr (v, c) \<Longrightarrow> v = gasPrice c"
  by (auto simp: estimateGasPrice_eip1559_def Let_def split: option.splits prod.splits)

lemma estimateGasPrice_repeat:
  assumes "estimateGasPrice i1 g1 d0 = (p1, Some d)" and "gas_now g1 \<le> gas_now g2"
    and "gas_now g2 - timestamp d < GAS_PRICE_CACHE_MS"
  shows "estimateGasPrice i2 g2 (Some d) = (p1, Some d)"
proof -
  have "p1 = Inr (gasPrice d)"
  proof (cases "gasPriceCacheFresh (gas_now g1) d0")
    case True
    with assms(1) show ?thesis
      by (auto simp: estimateGasPrice_def gasPriceCacheFresh_def split: option.splits if_splits)
  next
    case False
    then have miss:
      "(case d0 of None \<Rightarrow> None
        | Some c \<Rightarrow> if gas_now g1 - timestamp c < GAS_PRICE_CACHE_MS then Some (gasPrice c) else None)
         = None"
      by (auto simp: gasPriceCacheFresh_def split: option.splits)
    from False assms(2,3) have "d0 \<noteq> Some d"
      by (auto simp: gasPriceCacheFresh_def)
    with assms(1) show ?thesis
      unfolding estimateGasPrice_def miss
      by (auto split: if_splits sum.splits prod.splits
          dest: estimateGasPrice_fallback_cases estimateGasPrice_eip1559_value)
  qed
  with assms(3) show ?thesis by (simp add: estimateGasPrice_def)
qed

lemma estimatePriorityFee_keeps_entry:
  "snd (estimatePriorityFee cfg e (Some c)) \<noteq> None"
  by (auto simp: estimatePriorityFee_def estimatePriorityFee_try_def Let_def
      split: option.splits helius_reply.splits if_splits)

lemma estimateGasPrice_keeps_entry:
  "snd (estimateGasPrice i g (Some d)) \<noteq> None"
  by (auto simp: estimateGasPrice_def estimateGasPrice_fallback_def
      split: option.splits sum.splits prod.splits if_splits)

text \<open>
  Claim C8, amended. If a call leaves a cached estimate, and a second call is made, not
  earlier by the clock, while that estimate is younger than the time to live, then the second
  call returns the same quote and leaves the cache as it is, whatever the configuration and
  the upstream answers of the second call. A call on a cache that holds an estimate never
  empties it.
\<close>

theorem cached_quote_repeats_within_ttl:
  "(estimatePriorityFee cfg1 e1 c0 = (q1, Some c) \<longrightarrow> now e1 \<le> now e2
      \<longrightarrow> now e2 - pf_timestamp c < PRIORITY_FEE_CACHE_MS
      \<longrightarrow> estimatePriorityFee cfg2 e2 (Some c) = (q1, Some c))
   \<and> (estimateGasPrice i1 g1 d0 = (p1, Some d) \<longrightarrow> gas_now g1 \<le> gas_now g2
        \<longrightarrow> gas_now g2 - timestamp d < GAS_PRICE_CACHE_MS
        \<longrightarrow> estimateGasPrice i2 g2 (Some d) = (p1, Some d))
   \<and> snd (estimatePriorityFee cfg1 e1 (Some c)) \<noteq> None
   \<and> snd (estimateGasPrice i1 g1 (Some d)) \<noteq> None"
  using estimatePriorityFee_repeat [of cfg1 e1 c0 q1 c e2 cfg2]
    estimateGasPrice_repeat [of i1 g1 d0 p1 d g2 i2]
    estimatePriorityFee_keeps_entry [of cfg1 e1 c]
    estimateGasPrice_keeps_entry [of i1 g1 d]
  by blast

text \<open>
  A quote cached at time 10 is returned again at time 1000, by both estimators.
\<close>

theorem cached_quote_repeats_within_ttl_witness:
  "estimatePriorityFee cfgLowFloor oracleZero None
     = (Inr (1 / 10), Some \<lparr>pf_timestamp = 10, pf_fee = 1 / 10\<rparr>)
   \<and> now oracleZero \<le> now oracleLater
   \<and> now oracleLater - pf_timestamp \<lparr>pf_timestamp = 10, pf_fee = 1 / 10\<rparr> < PRIORITY_FEE_CACHE_MS
   \<and> estimatePriorityFee cfgHighFloor oracleLater (Some \<lparr>pf_timestamp = 10, pf_fee = 1 / 10\<rparr>)
       = (Inr (1 / 10), Some \<lparr>pf_timestamp = 10, pf_fee = 1 / 10\<rparr>)
   \<and> estimateGasPrice bscInst gasEnvLow None
       = (Inr (1 / 10), Some \<lparr>timestamp = 10, gasPrice = 1 / 10, est_maxFeePerGas = None,
                               est_maxPriorityFeePerGas = None, isEIP1559 = Some False\<rparr>)
   \<and> gas_now gasEnvLow \<le> gas_now gasEnvLater
   \<and> estimateGasPrice mainnetInst gasEnvLater
        (Some \<lparr>timestamp = 10, gasPrice = 1 / 10, est_maxFeePerGas = None,
               est_maxPriorityFeePerGas = None, isEIP1559 = Some False\<rparr>)
       = (Inr (1 / 10), Some \<lparr>timestamp = 10, gasPrice = 1 / 10, est_maxFeePerGas = None,
                               est_maxPriorityFeePerGas = None, isEIP1559 = Some False\<rparr>)"
  using cached_quote_repeats_within_ttl
    [of cfgLowFloor oracleZero None "Inr (1 / 10)" "\<lparr>pf_timestamp = 10, pf_fee = 1 / 10\<rparr>"
        oracleLater cfgHighFloor bscInst gasEnvLow None "Inr (1 / 10)"
        "\<lparr>timestamp = 10, gasPrice = 1 / 10, est_maxFeePerGas = None,
          est_maxPriorityFeePerGas = None, isEIP1559 = Some False\<rparr>" gasEnvLater mainnetInst]
  by (simp add: eval_fee eval_gas)


lemma eip1559Options_style:
  "eip1559Options pu gl a b = Inr opts \<Longrightarrow> onePricingStyle opts"
  by (auto simp: eip1559Options_def onePricingStyle_def split: sum.splits)

lemma legacyOptions_style:
  "fst (legacyOptions inst env g gl cache) = Inr opts \<Longrightarrow> onePricingStyle opts"
  by (auto simp: legacyOptions_def onePricingStyle_def split: sum.splits prod.splits option.splits)

text \<open>
  Claim C9. Whenever \<^verbatim>\<open>prepareGasOptions\<close> returns gas options they have exactly one pricing
  style: type 2 with \<^verbatim>\<open>maxFeePerGas\<close> and \<^verbatim>\<open>maxPriorityFeePerGas\<close> and no \<^verbatim>\<open>gasPrice\<close>, or
  type 0 with \<^verbatim>\<open>gasPrice\<close> and no dynamic fee.
\<close>

theorem prepareGasOptions_one_pricing_style:
  "fst (prepareGasOptions inst env1 env2 gasPriceArg gasLimitArg cache) = Inr opts
     \<Longrightarrow> onePricingStyle opts"
  unfolding prepareGasOptions_def Let_def
  by (auto split: if_splits option.splits prod.splits sum.splits
      dest: eip1559Options_style legacyOptions_style)

text \<open>
  On mainnet with an empty cache the estimator is called and the options are of type 2.
\<close>

theorem prepareGasOptions_one_pricing_style_witness:
  "fst (prepareGasOptions mainnetInst gasEnvLater gasEnvLater None None None)
     = Inr \<lparr>gasLimit = 300000, txType = 2, opt_maxFeePerGas = Some 30000000000,
            opt_maxPriorityFeePerGas = Some 1000000000, opt_gasPrice = None\<rparr>
   \<and> onePricingStyle \<lparr>gasLimit = 300000, txType = 2, opt_maxFeePerGas = Some 30000000000,
            opt_maxPriorityFeePerGas = Some 1000000000, opt_gasPrice = None\<rparr>"
  using prepareGasOptions_one_pricing_style
    [of mainnetInst gasEnvLater gasEnvLater None None None
        "\<lparr>gasLimit = 300000, txType = 2, opt_maxFeePerGas = Some 30000000000,
          opt_maxPriorityFeePerGas = Some 1000000000, opt_gasPrice = None\<rparr>"]
  by (simp add: prepareGasOptions_def truthyPrice_def cachedEIP1559_def eip1559Options_def
      DEFAULT_GAS_LIMIT_def eval_gas Let_def)

lemma prepareGasOptions_legacy_example:
  "fst (prepareGasOptions bscInst gasEnvLow gasEnvLow None (Some 21000) None)
     = Inr \<lparr>gasLimit = 21000, txType = 0, opt_maxFeePerGas = None,
            opt_maxPriorityFeePerGas = None, opt_gasPrice = Some 100000000\<rparr>"
  by (simp add: prepareGasOptions_def legacyOptions_def eval_gas Let_def)

lemma prepareGasOptions_throws_only_from_parseUnits:
  "fst (prepareGasOptions inst env1 env2 gasPriceArg gasLimitArg cache) = Inl e
     \<Longrightarrow> \<exists>x. parseUnitsGwei env1 x = Inl e \<or> parseUnitsGwei env2 x = Inl e"
  using estimateGasPrice_returns [of inst env1 cache]
    estimateGasPrice_returns [of inst env2]
  unfolding prepareGasOptions_def legacyOptions_def eip1559Options_def Let_def
  by (auto split: if_splits option.splits prod.splits sum.splits) (metis fst_conv sum.distinct(1))+

subsection \<open>Balance queries\<close>

lemma foldl_invariant:
  "P b \<Longrightarrow> (\<And>b x. P b \<Longrightarrow> P (f b x)) \<Longrightarrow> P (foldl f b xs)"
  by (induction xs arbitrary: b) auto

lemma tokenMap_fold_inv:
  "distinct (map fst m) \<Longrightarrow> (\<forall>(k, t) \<in> set m. k = symbol t)
     \<Longrightarrow> distinct (map fst (foldl (\<lambda>m token. AList.update (symbol token) token m) m ts))
         \<and> (\<forall>(k, t) \<in> set (foldl (\<lambda>m token. AList.update (symbol token) token m) m ts). k = symbol t)"
proof (induction ts arbitrary: m)
  case Nil
  then show ?case by simp
next
  case (Cons a ts)
  have d: "distinct (map fst (AList.update (symbol a) a m))"
    using Cons.prems(1) by (simp add: distinct_update)
  have s: "\<forall>(k, t) \<in> set (AList.update (symbol a) a m). k = symbol t"
    using Cons.prems(2) by (induction m) auto
  from Cons.IH[OF d s] show ?case by simp
qed

lemma storedTokenList_distinct: "distinct (map symbol (storedTokenList inst))"
proof -
  have inv: "distinct (map fst (tokenMap inst)) \<and> (\<forall>(k, t) \<in> set (tokenMap inst). k = symbol t)"
    unfolding tokenMap_def by (rule tokenMap_fold_inv) auto
  then have "map symbol (storedTokenList inst) = map fst (tokenMap inst)"
    unfolding storedTokenList_def by auto
  with inv show ?thesis by simp
qed

lemma update_fresh: "k \<notin> fst ` set al \<Longrightarrow> AList.update k v al = al @ [(k, v)]"
  by (induction al) auto

lemma tokenMap_fold_distinct:
  "distinct (map fst m @ map symbol ts)
     \<Longrightarrow> foldl (\<lambda>m token. AList.update (symbol token) token m) m ts
         = m @ map (\<lambda>t. (symbol t, t)) ts"
proof (induction ts arbitrary: m)
  case Nil
  then show ?case by simp
next
  case (Cons a ts)
  from Cons.prems have fresh: "symbol a \<notin> fst ` set m" by auto
  then have u: "AList.update (symbol a) a m = m @ [(symbol a, a)]" by (rule update_fresh)
  from Cons.prems have "distinct (map fst (m @ [(symbol a, a)]) @ map symbol ts)" by auto
  from Cons.IH[OF this] u show ?case by simp
qed

lemma storedTokenList_distinct_symbols:
  "distinct (map symbol (tokenList inst)) \<Longrightarrow> storedTokenList inst = tokenList inst"
  using tokenMap_fold_distinct [of "[]" "tokenList inst"]
  by (simp add: storedTokenList_def tokenMap_def comp_def)

lemma getAllTokenBalances_fold:
  "getAllTokenBalances inst env b = foldl (allStep env) b (storedTokenList inst)"
  unfolding getAllTokenBalances_def allStep_def by simp

lemma allStep_inv:
  assumes "b n \<noteq> None \<and> (\<forall>k v. b k = Some v \<longrightarrow> k \<noteq> n \<longrightarrow> 0 < v)"
  shows "allStep env b t n \<noteq> None \<and> (\<forall>k v. allStep env b t k = Some v \<longrightarrow> k \<noteq> n \<longrightarrow> 0 < v)"
proof (cases "erc20Balance env t")
  case (Inl e)
  with assms show ?thesis by (simp add: allStep_def)
next
  case (Inr bal)
  show ?thesis
  proof (cases "0 < tokenValueToNumber env bal")
    case True
    with Inr have "allStep env b t = b(symbol t \<mapsto> tokenValueToNumber env bal)"
      by (simp add: allStep_def)
    with assms True show ?thesis by auto
  next
    case False
    with Inr assms show ?thesis by (simp add: allStep_def)
  qed
qed

lemma allStep_other: "symbol t \<noteq> k \<Longrightarrow> allStep env b t k = b k"
  by (auto simp: allStep_def Let_def split: sum.splits)

lemma foldl_allStep_other:
  "k \<notin> symbol ` set ts \<Longrightarrow> foldl (allStep env) b ts k = b k"
  by (induction ts arbitrary: b) (auto simp: allStep_other)

lemma foldl_allStep_member:
  "distinct (map symbol ts) \<Longrightarrow> t \<in> set ts \<Longrightarrow> erc20Balance env t = Inr bal
     \<Longrightarrow> 0 < tokenValueToNumber env bal
     \<Longrightarrow> foldl (allStep env) b ts (symbol t) = Some (tokenValueToNumber env bal)"
proof (induction ts arbitrary: b)
  case Nil
  then show ?case by simp
next
  case (Cons a ts)
  show ?case
  proof (cases "t = a")
    case True
    from Cons.prems(1) True have "symbol t \<notin> symbol ` set ts" by auto
    then have "foldl (allStep env) (allStep env b a) ts (symbol t) = allStep env b a (symbol t)"
      by (rule foldl_allStep_other)
    moreover from True Cons.prems(3,4)
    have "allStep env b a (symbol t) = Some (tokenValueToNumber env bal)"
      by (simp add: allStep_def)
    ultimately show ?thesis by simp
  next
    case False
    with Cons.prems have "t \<in> set ts" "distinct (map symbol ts)" by auto
    from Cons.IH[OF this(2) this(1) Cons.prems(3,4)] show ?thesis by simp
  qed
qed


lemma getBalances_none_shape:
  assumes "getBalances inst env None = Inr b"
  shows "b (nativeTokenSymbol inst) \<noteq> None"
    and "b k = Some v \<Longrightarrow> k \<noteq> nativeTokenSymbol inst \<Longrightarrow> 0 < v"
    and "token \<in> set (storedTokenList inst) \<Longrightarrow> erc20Balance env token = Inr bal
          \<Longrightarrow> 0 < tokenValueToNumber env bal
          \<Longrightarrow> b (symbol token) = Some (tokenValueToNumber env bal)"
proof -
  from assms obtain nb where
    b: "b = foldl (allStep env) [nativeTokenSymbol inst \<mapsto> nb] (storedTokenList inst)"
    by (auto simp: getBalances_def getAllTokenBalances_fold Let_def split: sum.splits if_splits)
  let ?n = "nativeTokenSymbol inst"
  have "foldl (allStep env) [?n \<mapsto> nb] (storedTokenList inst) ?n \<noteq> None
        \<and> (\<forall>k v. foldl (allStep env) [?n \<mapsto> nb] (storedTokenList inst) k = Some v \<longrightarrow> k \<noteq> ?n \<longrightarrow> 0 < v)"
    by (rule foldl_invariant[where P = "\<lambda>b. b ?n \<noteq> None \<and> (\<forall>k v. b k = Some v \<longrightarrow> k \<noteq> ?n \<longrightarrow> 0 < v)"])
       (simp, rule allStep_inv)
  with b show "b ?n \<noteq> None" and "b k = Some v \<Longrightarrow> k \<noteq> ?n \<Longrightarrow> 0 < v" by auto
  show "token \<in> set (storedTokenList inst) \<Longrightarrow> erc20Balance env token = Inr bal
          \<Longrightarrow> 0 < tokenValueToNumber env bal
          \<Longrightarrow> b (symbol token) = Some (tokenValueToNumber env bal)"
    unfolding b by (rule foldl_allStep_member[OF storedTokenList_distinct])
qed























lemma getTokenBalance_spec:
  "map_of (fetchTokenAccounts env) (sol_address t) = Some a
     \<Longrightarrow> getTokenBalance (Some a) (sol_decimals t) = spec_tokenAmount env t"
  by (simp add: getTokenBalance_def spec_tokenAmount_def)




































end
